theory Spec2Isabelle
  imports Complex_Main "HOL-Library.Word" "HOL-Library.AList"
begin

section \<open>The movie store of storage/movie\_storage\_sql.py\<close>

text \<open>
  The module keeps one SQLite table

  \<^verbatim>\<open>CREATE TABLE IF NOT EXISTS movies (
      id INTEGER PRIMARY KEY AUTOINCREMENT,
      title TEXT UNIQUE NOT NULL, year INTEGER NOT NULL,
      rating REAL NOT NULL, poster TEXT NOT NULL)\<close>

  and five functions that each run one SQL statement on it. The embedding has two
  layers, as the source has: the statements, with the meaning SQLite gives them, and the
  Python functions that call them.

  Values are typed by the columns they are stored in. TEXT is a \<open>string\<close> whose
  characters are the code points U+0000 to U+00FF; INTEGER is a 64-bit signed integer;
  REAL is modelled by \<open>real\<close> (the rounding of IEEE doubles is not modelled). The
  column \<open>id\<close> is written by AUTOINCREMENT only and no statement of the module reads
  it: a table is the list of its rows \<open>(title, year, rating, poster)\<close> in rowid
  order, which is the order of insertion and the order of a scan.
\<close>

subsection \<open>Text: the two lower-casing functions\<close>

text \<open>
  The source lower-cases on both sides of \<^verbatim>\<open>WHERE LOWER(title) = :title\<close>, with two
  different functions. SQLite's built-in \<^verbatim>\<open>LOWER\<close> folds the ASCII letters A to Z only.
  Python's \<^verbatim>\<open>str.lower\<close> follows Unicode: below U+0100 it folds A to Z and also the
  letters U+00C0 to U+00DE, the multiplication sign U+00D7 apart.
\<close>

definition sqlite_tolower :: "char \<Rightarrow> char" where
  "sqlite_tolower c =
     (let n = (of_char c :: nat)
      in if 65 \<le> n \<and> n \<le> 90 then char_of (n + 32) else c)"

definition LOWER :: "string \<Rightarrow> string" where
  "LOWER t = map sqlite_tolower t"

definition py_tolower :: "char \<Rightarrow> char" where
  "py_tolower c =
     (let n = (of_char c :: nat)
      in if (65 \<le> n \<and> n \<le> 90) \<or> (192 \<le> n \<and> n \<le> 222 \<and> n \<noteq> 215)
         then char_of (n + 32) else c)"

definition lower :: "string \<Rightarrow> string" where
  "lower t = map py_tolower t"

text \<open>
  \<^verbatim>\<open>str.isspace\<close> below U+0100, and \<^verbatim>\<open>str.strip()\<close>, which removes the white space
  at both ends.
\<close>

definition isspace :: "char \<Rightarrow> bool" where
  "isspace c =
     (let n = (of_char c :: nat)
      in (9 \<le> n \<and> n \<le> 13) \<or> (28 \<le> n \<and> n \<le> 32) \<or> n = 133 \<or> n = 160)"

definition strip :: "string \<Rightarrow> string" where
  "strip t = rev (dropWhile isspace (rev (dropWhile isspace t)))"

definition ascii :: "string \<Rightarrow> bool" where
  "ascii t = list_all (\<lambda>c. (of_char c :: nat) < 128) t"

subsection \<open>The table and the statements\<close>

type_synonym sql_integer = "64 word"

type_synonym row = "string \<times> sql_integer \<times> real \<times> string"

datatype statement =
    CREATE_TABLE_IF_NOT_EXISTS
  | SELECT_title_year_rating_poster
  | INSERT string sql_integer real string
  | DELETE_WHERE_LOWER_title string
  | UPDATE_SET_rating_WHERE_LOWER_title real string
  | SELECT_rating

text \<open>
  The state is the table together with the statements this process has sent to the
  engine, so that a call that never reaches the engine is told apart from one that
  reads it.
\<close>

record db =
  movies :: "row list"
  executed :: "statement list"

definition log :: "statement \<Rightarrow> db \<Rightarrow> db" where
  "log q s = s\<lparr>executed := executed s @ [q]\<rparr>"

text \<open>
  Module load: the table is created when the file has none, and an existing table keeps
  its rows.
\<close>

definition create_table :: "row list option \<Rightarrow> db" where
  "create_table file =
     \<lparr>movies = (case file of None \<Rightarrow> [] | Some rows \<Rightarrow> rows),
      executed = [CREATE_TABLE_IF_NOT_EXISTS]\<rparr>"

datatype db_error = IntegrityError

definition select_movies :: "db \<Rightarrow> row list \<times> db" where
  "select_movies s = (movies s, log SELECT_title_year_rating_poster s)"

text \<open>
  \<^verbatim>\<open>title TEXT UNIQUE\<close> compares with the default collation BINARY: two titles
  conflict when they are the same string. A statement that fails changes no row.
\<close>

definition insert_movie ::
  "string \<Rightarrow> sql_integer \<Rightarrow> real \<Rightarrow> string \<Rightarrow> db \<Rightarrow> (db_error + unit) \<times> db" where
  "insert_movie t y r p s =
     (if t \<in> set (map fst (movies s))
      then (Inl IntegrityError, log (INSERT t y r p) s)
      else (Inr (), log (INSERT t y r p) (s\<lparr>movies := movies s @ [(t, y, r, p)]\<rparr>)))"

text \<open>Both return the statement's row count.\<close>

definition delete_where_lower :: "string \<Rightarrow> db \<Rightarrow> nat \<times> db" where
  "delete_where_lower k s =
     (length (filter (\<lambda>row. LOWER (fst row) = k) (movies s)),
      log (DELETE_WHERE_LOWER_title k)
        (s\<lparr>movies := filter (\<lambda>row. LOWER (fst row) \<noteq> k) (movies s)\<rparr>))"

definition update_where_lower :: "real \<Rightarrow> string \<Rightarrow> db \<Rightarrow> nat \<times> db" where
  "update_where_lower new k s =
     (length (filter (\<lambda>row. LOWER (fst row) = k) (movies s)),
      log (UPDATE_SET_rating_WHERE_LOWER_title new k)
        (s\<lparr>movies :=
             map (\<lambda>(t, y, r, p). if LOWER t = k then (t, y, new, p) else (t, y, r, p))
               (movies s)\<rparr>))"

definition select_ratings :: "db \<Rightarrow> real list \<times> db" where
  "select_ratings s = (map (\<lambda>(t, y, r, p). r) (movies s), log SELECT_rating s)"

subsection \<open>The operations\<close>

text \<open>
  \<^verbatim>\<open>get_movies\<close> builds \<^verbatim>\<open>{r[0]: {"year": r[1], "rating": r[2], "poster": r[3]} for r in rows}\<close>.
  A Python dict keeps its keys in insertion order, and storing under a key that is
  present replaces the value where the key stands: an association list under
  \<open>AList.update\<close>.
\<close>

record movie_info =
  year :: sql_integer
  rating :: real
  poster :: string

type_synonym movie_dict = "(string \<times> movie_info) list"

definition dict_of_rows :: "row list \<Rightarrow> movie_dict" where
  "dict_of_rows rows =
     foldl (\<lambda>d (t, y, r, p). AList.update t \<lparr>year = y, rating = r, poster = p\<rparr> d) [] rows"

definition get_movies :: "db \<Rightarrow> movie_dict \<times> db" where
  "get_movies s = (let (rows, s') = select_movies s in (dict_of_rows rows, s'))"

text \<open>
  \<^verbatim>\<open>add_movie\<close>: \<^verbatim>\<open>True\<close> when the INSERT went through, \<^verbatim>\<open>False\<close> on
  IntegrityError. The handler of any other exception also returns \<^verbatim>\<open>False\<close>; the
  engine modelled here raises no other.
\<close>

definition add_movie ::
  "string \<Rightarrow> sql_integer \<Rightarrow> real \<Rightarrow> string \<Rightarrow> db \<Rightarrow> bool \<times> db" where
  "add_movie t y r p s =
     (case insert_movie t y r p s of
        (Inr _, s') \<Rightarrow> (True, s')
      | (Inl IntegrityError, s') \<Rightarrow> (False, s'))"

text \<open>\<^verbatim>\<open>bool(result.rowcount and result.rowcount > 0)\<close>, the parameter being \<^verbatim>\<open>title.lower()\<close>.\<close>

definition delete_movie :: "string \<Rightarrow> db \<Rightarrow> bool \<times> db" where
  "delete_movie t s =
     (let (rowcount, s') = delete_where_lower (lower t) s
      in (rowcount \<noteq> 0 \<and> rowcount > 0, s'))"

text \<open>\<^verbatim>\<open>rating=None\<close> returns before the connection is opened.\<close>

definition update_movie :: "string \<Rightarrow> real option \<Rightarrow> db \<Rightarrow> bool \<times> db" where
  "update_movie t new s =
     (case new of
        None \<Rightarrow> (False, s)
      | Some r \<Rightarrow>
          (let (rowcount, s') = update_where_lower r (lower t) s
           in (rowcount \<noteq> 0 \<and> rowcount > 0, s')))"

text \<open>
  \<^verbatim>\<open>stats_of_movies\<close> prints and has no \<^verbatim>\<open>return\<close> with a value: in both branches
  the caller receives \<^verbatim>\<open>None\<close>. \<open>console\<close> is what is printed; the line of numbers is
  kept as the four values handed to the format string (each but the count is printed
  with two decimals). \<^verbatim>\<open>min\<close> and \<^verbatim>\<open>max\<close> are reached with a list that is not
  empty, given here as its first element and the rest; they scan from the left and keep
  the first of equal elements.
\<close>

record stats =
  count :: nat
  min_rating :: real
  max_rating :: real
  avg_rating :: real

datatype console = No_movies_in_database | Stats_line nat real real real

definition py_min :: "real \<Rightarrow> real list \<Rightarrow> real" where
  "py_min x xs = fold (\<lambda>v m. if v < m then v else m) xs x"

definition py_max :: "real \<Rightarrow> real list \<Rightarrow> real" where
  "py_max x xs = fold (\<lambda>v m. if v > m then v else m) xs x"

definition stats_of_movies :: "db \<Rightarrow> (console \<times> stats option) \<times> db" where
  "stats_of_movies s =
     (let (ratings, s') = select_ratings s
      in case ratings of
           [] \<Rightarrow> ((No_movies_in_database, None), s')
         | x # xs \<Rightarrow>
             (let n = length ratings;
                  min_r = py_min x xs;
                  max_r = py_max x xs;
                  avg_r = sum_list ratings / real n
              in ((Stats_line n min_r max_r avg_r, None), s')))"

subsection \<open>The guard of the command line\<close>

text \<open>
  \<^verbatim>\<open>command_add_movie\<close> of main.py up to its call of the lookup client: the title typed
  is stripped, an empty one is refused, and one that equals a stored title after
  \<^verbatim>\<open>lower()\<close> on both is refused. Only then are the lookup and \<^verbatim>\<open>add_movie\<close> reached.
\<close>

datatype add_guard = Title_cannot_be_empty | Movie_already_exists string | Lookup string

definition command_add_movie_guard :: "string \<Rightarrow> db \<Rightarrow> add_guard \<times> db" where
  "command_add_movie_guard typed s =
     (let (dict, s') = get_movies s;
          title_input = strip typed
      in if title_input = [] then (Title_cannot_be_empty, s')
         else if lower title_input \<in> set (map (\<lambda>kv. lower (fst kv)) dict)
         then (Movie_already_exists title_input, s')
         else (Lookup title_input, s'))"

subsection \<open>Calls and reachable states\<close>

datatype call =
    Get_movies
  | Add_movie string sql_integer real string
  | Delete_movie string
  | Update_movie string "real option"
  | Stats_of_movies

fun run :: "call \<Rightarrow> db \<Rightarrow> db" where
  "run Get_movies s = snd (get_movies s)"
| "run (Add_movie t y r p) s = snd (add_movie t y r p s)"
| "run (Delete_movie t) s = snd (delete_movie t s)"
| "run (Update_movie t new) s = snd (update_movie t new s)"
| "run Stats_of_movies s = snd (stats_of_movies s)"

text \<open>
  A state is reachable when calls of the module produce it from a fresh file, the
  process being restarted on the file any number of times.
\<close>

inductive reachable :: "db \<Rightarrow> bool" where
  fresh: "reachable (create_table None)"
| restart: "reachable s \<Longrightarrow> reachable (create_table (Some (movies s)))"
| call: "reachable s \<Longrightarrow> reachable (run c s)"

fun add_movies :: "row list \<Rightarrow> db \<Rightarrow> db" where
  "add_movies [] s = s"
| "add_movies ((t, y, r, p) # calls) s = add_movies calls (snd (add_movie t y r p s))"

text \<open>
  Two titles are the same up to case when \<^verbatim>\<open>lower()\<close> makes them equal, which is the
  comparison of the duplicate check in main.py.
\<close>

definition same_title :: "string \<Rightarrow> string \<Rightarrow> bool" where
  "same_title a b = (lower a = lower b)"


section \<open>Properties\<close>

subsection \<open>Lower-casing\<close>

lemma py_tolower_sqlite_tolower: "py_tolower (sqlite_tolower c) = py_tolower c"
  by (auto simp: py_tolower_def sqlite_tolower_def Let_def)

lemma py_tolower_idem: "py_tolower (py_tolower c) = py_tolower c"
  by (auto simp: py_tolower_def Let_def)

lemma sqlite_tolower_ascii: "(of_char c :: nat) < 128 \<Longrightarrow> sqlite_tolower c = py_tolower c"
  by (auto simp: py_tolower_def sqlite_tolower_def Let_def)

lemma lower_LOWER: "lower (LOWER t) = lower t"
  by (simp add: lower_def LOWER_def py_tolower_sqlite_tolower)

lemma lower_idem: "lower (lower t) = lower t"
  by (simp add: lower_def py_tolower_idem)

lemma LOWER_ascii: "ascii t \<Longrightarrow> LOWER t = lower t"
  by (simp add: lower_def LOWER_def ascii_def list_all_iff sqlite_tolower_ascii)

text \<open>A row that the WHERE clause selects has the title of the call up to case.\<close>

lemma LOWER_match_same_title: "LOWER t = lower a \<Longrightarrow> same_title t a"
  unfolding same_title_def by (metis lower_LOWER lower_idem)

text \<open>For a stored title in ASCII the WHERE clause selects exactly those rows.\<close>

lemma ascii_match_iff: "ascii t \<Longrightarrow> LOWER t = lower a \<longleftrightarrow> same_title t a"
  by (simp add: LOWER_ascii same_title_def)

subsection \<open>What each operation does to the table\<close>

lemma movies_log [simp]: "movies (log q s) = movies s"
  by (simp add: log_def)

lemma add_movie_new:
  "t \<notin> fst ` set (movies s) \<Longrightarrow>
   add_movie t y r p s = (True, log (INSERT t y r p) (s\<lparr>movies := movies s @ [(t, y, r, p)]\<rparr>))"
  by (simp add: add_movie_def insert_movie_def)

lemma add_movie_present:
  "t \<in> fst ` set (movies s) \<Longrightarrow> add_movie t y r p s = (False, log (INSERT t y r p) s)"
  by (simp add: add_movie_def insert_movie_def)

lemma movies_delete_movie:
  "movies (snd (delete_movie t s)) = filter (\<lambda>row. LOWER (fst row) \<noteq> lower t) (movies s)"
  by (simp add: delete_movie_def delete_where_lower_def)

lemma fst_delete_movie:
  "fst (delete_movie t s) = (\<exists>row \<in> set (movies s). LOWER (fst row) = lower t)"
  by (auto simp: delete_movie_def delete_where_lower_def filter_empty_conv)

lemma movies_update_movie:
  "movies (snd (update_movie t (Some new) s)) =
     map (\<lambda>(t', y, r, p). if LOWER t' = lower t then (t', y, new, p) else (t', y, r, p)) (movies s)"
  by (simp add: update_movie_def update_where_lower_def)

lemma fst_update_movie:
  "fst (update_movie t (Some new) s) = (\<exists>row \<in> set (movies s). LOWER (fst row) = lower t)"
  by (auto simp: update_movie_def update_where_lower_def filter_empty_conv)

lemma movies_get_movies [simp]: "movies (snd (get_movies s)) = movies s"
  by (simp add: get_movies_def select_movies_def)

lemma fst_get_movies: "fst (get_movies s) = dict_of_rows (movies s)"
  by (simp add: get_movies_def select_movies_def)

lemma movies_stats_of_movies [simp]: "movies (snd (stats_of_movies s)) = movies s"
  by (simp add: stats_of_movies_def select_ratings_def Let_def split: list.splits)

lemma titles_update_movie:
  "map fst (movies (snd (update_movie t new s))) = map fst (movies s)"
proof (cases new)
  case None
  then show ?thesis by (simp add: update_movie_def)
next
  case (Some a)
  show ?thesis unfolding Some movies_update_movie
    by (simp add: case_prod_beta comp_def)
qed

subsection \<open>The UNIQUE constraint is an invariant\<close>

lemma distinct_titles_run:
  "distinct (map fst (movies s)) \<Longrightarrow> distinct (map fst (movies (run c s)))"
proof (cases c)
  case (Add_movie t y r p)
  assume "distinct (map fst (movies s))"
  then show ?thesis unfolding Add_movie
    by (cases "t \<in> fst ` set (movies s)") (simp_all add: add_movie_new add_movie_present)
next
  case (Delete_movie t)
  assume "distinct (map fst (movies s))"
  then show ?thesis unfolding Delete_movie
    by (simp add: movies_delete_movie distinct_map_filter)
next
  case (Update_movie t new)
  assume "distinct (map fst (movies s))"
  then show ?thesis unfolding Update_movie
    by (simp add: titles_update_movie)
qed simp_all

lemma reachable_distinct_titles: "reachable s \<Longrightarrow> distinct (map fst (movies s))"
proof (induction rule: reachable.induct)
  case fresh
  show ?case by (simp add: create_table_def)
next
  case (restart s)
  then show ?case by (simp add: create_table_def)
next
  case (call s c)
  then show ?case by (simp add: distinct_titles_run)
qed

lemma reachable_add_movies: "reachable s \<Longrightarrow> reachable (add_movies calls s)"
proof (induction calls arbitrary: s)
  case Nil
  then show ?case by simp
next
  case (Cons a calls)
  obtain t y r p where a: "a = (t, y, r, p)" by (cases a)
  have "reachable (run (Add_movie t y r p) s)" using Cons.prems by (rule reachable.call)
  then show ?case using Cons.IH by (simp add: a)
qed

text \<open>
  C1. From a reachable state, after any sequence of \<^verbatim>\<open>add_movie\<close> calls no two rows of
  the table have the same title; and in the state reached, \<^verbatim>\<open>add_movie\<close> with the title
  of a stored row (the same string) returns \<^verbatim>\<open>False\<close> and leaves the table, hence the
  number of records, as it was.
\<close>

theorem add_movie_titles_unique:
  assumes "reachable s"
  shows "distinct (map fst (movies (add_movies calls s))) \<and>
         (\<forall>t \<in> fst ` set (movies (add_movies calls s)). \<forall>y r p.
            fst (add_movie t y r p (add_movies calls s)) = False \<and>
            movies (snd (add_movie t y r p (add_movies calls s))) = movies (add_movies calls s))"
  using assms
  by (simp add: reachable_add_movies reachable_distinct_titles add_movie_present)

theorem add_movie_titles_unique_witness:
  "reachable (create_table None) \<and>
   movies (add_movies [(''Gladiator'', 2000, 8.5, ''http://...''), (''gladiator'', 2001, 5.0, ''x''),
                       (''Gladiator'', 1999, 1, ''y'')] (create_table None))
     = [(''Gladiator'', 2000, 8.5, ''http://...''), (''gladiator'', 2001, 5.0, ''x'')] \<and>
   fst (add_movie ''Gladiator'' 1999 1 ''y''
         (add_movies [(''Gladiator'', 2000, 8.5, ''http://...''), (''gladiator'', 2001, 5.0, ''x''),
                       (''Gladiator'', 1999, 1, ''y'')] (create_table None))) = False \<and>
   length (movies (snd (add_movie ''Gladiator'' 1999 1 ''y''
         (add_movies [(''Gladiator'', 2000, 8.5, ''http://...''), (''gladiator'', 2001, 5.0, ''x''),
                       (''Gladiator'', 1999, 1, ''y'')] (create_table None))))) = 2"
proof -
  have r: "reachable (create_table None)"
    by (rule reachable.fresh)
  have m: "movies (add_movies [(''Gladiator'', 2000, 8.5, ''http://...''), (''gladiator'', 2001, 5.0, ''x''),
                       (''Gladiator'', 1999, 1, ''y'')] (create_table None))
     = [(''Gladiator'', 2000, 8.5, ''http://...''), (''gladiator'', 2001, 5.0, ''x'')]"
    by (simp add: create_table_def add_movie_def insert_movie_def log_def)
  show ?thesis
    using r m add_movie_titles_unique [OF r,
      of "[(''Gladiator'', 2000, 8.5, ''http://...''), (''gladiator'', 2001, 5.0, ''x''),
                       (''Gladiator'', 1999, 1, ''y'')]"]
    by simp
qed

subsection \<open>Reading back what was added\<close>

lemma dict_of_rows_snoc:
  "dict_of_rows (rows @ [(t, y, r, p)]) =
     AList.update t \<lparr>year = y, rating = r, poster = p\<rparr> (dict_of_rows rows)"
  by (simp add: dict_of_rows_def)

text \<open>
  C2. When the table has no row titled \<open>t\<close>, \<^verbatim>\<open>add_movie(t, y, r, p)\<close> succeeds and the
  dict that \<^verbatim>\<open>get_movies\<close> then returns has under \<open>t\<close> the year, rating and poster
  of the call.
\<close>

theorem add_movie_then_get_movies:
  assumes "t \<notin> fst ` set (movies s)"
  shows "fst (add_movie t y r p s) = True \<and>
         map_of (fst (get_movies (snd (add_movie t y r p s)))) t
           = Some \<lparr>year = y, rating = r, poster = p\<rparr>"
  using assms
  by (simp add: add_movie_new fst_get_movies dict_of_rows_snoc update_conv')

theorem add_movie_then_get_movies_witness:
  "''Inception'' \<notin> fst ` set (movies (create_table (Some [(''Gladiator'', 2000, 8.5, ''http://...'')]))) \<and>
   fst (add_movie ''Inception'' 2010 8.8 ''N/A''
         (create_table (Some [(''Gladiator'', 2000, 8.5, ''http://...'')]))) = True \<and>
   map_of (fst (get_movies (snd (add_movie ''Inception'' 2010 8.8 ''N/A''
         (create_table (Some [(''Gladiator'', 2000, 8.5, ''http://...'')])))))) ''Inception''
     = Some \<lparr>year = 2010, rating = 8.8, poster = ''N/A''\<rparr>"
proof -
  have h: "''Inception'' \<notin> fst ` set (movies (create_table (Some [(''Gladiator'', 2000, 8.5, ''http://...'')])))"
    by (simp add: create_table_def)
  show ?thesis
    using h add_movie_then_get_movies [OF h, of 2010 "8.8" "''N/A''"]
    by simp
qed

subsection \<open>Deleting twice, updating without a rating\<close>

text \<open>
  C7. Of two calls \<^verbatim>\<open>delete_movie(t)\<close> in a row the second returns \<^verbatim>\<open>False\<close>, and the
  table after both is the table after the first.
\<close>

theorem delete_movie_twice:
  "fst (delete_movie t (snd (delete_movie t s))) = False \<and>
   movies (snd (delete_movie t (snd (delete_movie t s)))) = movies (snd (delete_movie t s))"
  by (simp add: fst_delete_movie movies_delete_movie)

text \<open>
  C9. \<^verbatim>\<open>update_movie\<close> called with no rating (\<^verbatim>\<open>rating=None\<close>) returns \<^verbatim>\<open>False\<close> and the
  state is the one before the call: the table is the same and no statement was sent to
  the engine.
\<close>

theorem update_movie_without_rating: "update_movie t None s = (False, s)"
  by (simp add: update_movie_def)

subsection \<open>Listing\<close>

lemma dict_of_rows_distinct_aux:
  "distinct (map fst d @ map fst rows) \<Longrightarrow>
   foldl (\<lambda>d (t, y, r, p). AList.update t \<lparr>year = y, rating = r, poster = p\<rparr> d) d rows
     = d @ map (\<lambda>(t, y, r, p). (t, \<lparr>year = y, rating = r, poster = p\<rparr>)) rows"
proof (induction rows arbitrary: d)
  case Nil
  then show ?case by simp
next
  case (Cons a rows)
  obtain t y r p where a: "a = (t, y, r, p)" by (cases a)
  have new: "t \<notin> fst ` set d" using Cons.prems by (auto simp: a)
  have upd: "AList.update t v d = d @ [(t, v)]" for v
    using new by (induction d) auto
  have "distinct (map fst (d @ [(t, \<lparr>year = y, rating = r, poster = p\<rparr>)]) @ map fst rows)"
    using Cons.prems by (auto simp: a)
  from Cons.IH [OF this] show ?case by (simp add: a upd)
qed

text \<open>Under the UNIQUE constraint no key is stored twice: the dict is the table, row by row.\<close>

lemma dict_of_rows_distinct:
  "distinct (map fst rows) \<Longrightarrow>
   dict_of_rows rows = map (\<lambda>(t, y, r, p). (t, \<lparr>year = y, rating = r, poster = p\<rparr>)) rows"
  using dict_of_rows_distinct_aux [of "[]" rows] by (simp add: dict_of_rows_def)

lemma dict_of_rows_keys_aux:
  "fst ` set (foldl (\<lambda>d (t, y, r, p). AList.update t \<lparr>year = y, rating = r, poster = p\<rparr> d) d rows)
     = fst ` set d \<union> fst ` set rows"
proof (induction rows arbitrary: d)
  case Nil
  show ?case by simp
next
  case (Cons a rows)
  obtain t y r p where a: "a = (t, y, r, p)" by (cases a)
  show ?case by (simp add: a Cons.IH dom_update Un_assoc)
qed

lemma dict_of_rows_keys: "fst ` set (dict_of_rows rows) = fst ` set rows"
  by (simp add: dict_of_rows_def dict_of_rows_keys_aux)

lemma map_of_rows:
  "distinct (map fst rows) \<Longrightarrow> (t, y, r, p) \<in> set rows \<Longrightarrow>
   map_of (map (\<lambda>(t, y, r, p). (t, \<lparr>year = y, rating = r, poster = p\<rparr>)) rows) t
     = Some \<lparr>year = y, rating = r, poster = p\<rparr>"
  by (induction rows) (auto simp: image_iff)

text \<open>
  C8. \<^verbatim>\<open>get_movies\<close> leaves the table as it is; it returns the empty dict for the empty
  table; the keys of the dict are the stored titles; and for a table that meets its
  UNIQUE constraint (every reachable one does, \<open>reachable_distinct_titles\<close>) the dict
  has one entry per row, in the order of the rows, each title mapped to the year, rating
  and poster of its row.
\<close>

theorem get_movies_lists_table:
  "movies (snd (get_movies s)) = movies s \<and>
   (movies s = [] \<longrightarrow> fst (get_movies s) = []) \<and>
   fst ` set (fst (get_movies s)) = fst ` set (movies s) \<and>
   (distinct (map fst (movies s)) \<longrightarrow>
      fst (get_movies s) =
        map (\<lambda>(t, y, r, p). (t, \<lparr>year = y, rating = r, poster = p\<rparr>)) (movies s) \<and>
      (\<forall>(t, y, r, p) \<in> set (movies s).
         map_of (fst (get_movies s)) t = Some \<lparr>year = y, rating = r, poster = p\<rparr>))"
proof (intro conjI impI)
  show "movies (snd (get_movies s)) = movies s" by simp
  show "fst (get_movies s) = []" if "movies s = []"
    using that by (simp add: fst_get_movies dict_of_rows_def)
  show "fst ` set (fst (get_movies s)) = fst ` set (movies s)"
    by (simp add: fst_get_movies dict_of_rows_keys)
  assume d: "distinct (map fst (movies s))"
  then show "fst (get_movies s) =
        map (\<lambda>(t, y, r, p). (t, \<lparr>year = y, rating = r, poster = p\<rparr>)) (movies s)"
    by (simp add: fst_get_movies dict_of_rows_distinct)
  show "\<forall>(t, y, r, p) \<in> set (movies s).
         map_of (fst (get_movies s)) t = Some \<lparr>year = y, rating = r, poster = p\<rparr>"
    using d by (auto simp: fst_get_movies dict_of_rows_distinct map_of_rows)
qed

theorem get_movies_lists_table_witness:
  "distinct (map fst (movies (create_table (Some [(''Gladiator'', 2000, 8.5, ''http://...''),
                                                 (''Inception'', 2010, 8.8, ''N/A'')])))) \<and>
   fst (get_movies (create_table (Some [(''Gladiator'', 2000, 8.5, ''http://...''),
                                        (''Inception'', 2010, 8.8, ''N/A'')])))
     = [(''Gladiator'', \<lparr>year = 2000, rating = 8.5, poster = ''http://...''\<rparr>),
        (''Inception'', \<lparr>year = 2010, rating = 8.8, poster = ''N/A''\<rparr>)] \<and>
   map_of (fst (get_movies (create_table (Some [(''Gladiator'', 2000, 8.5, ''http://...''),
                                        (''Inception'', 2010, 8.8, ''N/A'')])))) ''Inception''
     = Some \<lparr>year = 2010, rating = 8.8, poster = ''N/A''\<rparr> \<and>
   movies (create_table None) = [] \<and> fst (get_movies (create_table None)) = []"
proof -
  let ?s = "create_table (Some [(''Gladiator'', 2000, 8.5, ''http://...''),
                                (''Inception'', 2010, 8.8, ''N/A'')])"
  have d: "distinct (map fst (movies ?s))"
    by (simp add: create_table_def)
  show ?thesis
    using d get_movies_lists_table [of ?s] get_movies_lists_table [of "create_table None"]
    by (simp add: create_table_def)
qed

subsection \<open>Titles that differ in case only\<close>

lemma lower_Gladiator:
  "lower ''Gladiator'' = ''gladiator''"
  "lower ''gladiator'' = ''gladiator''"
  "lower ''GLADIATOR'' = ''gladiator''"
  by code_simp+

lemma LOWER_Gladiator:
  "LOWER ''Gladiator'' = ''gladiator''"
  "LOWER ''gladiator'' = ''gladiator''"
  by code_simp+

lemma strip_gladiator: "strip ''gladiator'' = ''gladiator''"
  by code_simp

text \<open>
  C3, as stated, fails on the store: after \<^verbatim>\<open>add_movie("Gladiator", 2000, 8.5, "http://...")\<close>
  on the empty table, \<^verbatim>\<open>add_movie("gladiator", 2001, 5.0, "x")\<close> does not return
  \<^verbatim>\<open>False\<close>, and \<^verbatim>\<open>get_movies\<close> does not return one entry.
\<close>

theorem add_movie_other_case_counterexample:
  "fst (add_movie ''gladiator'' 2001 5.0 ''x''
         (snd (add_movie ''Gladiator'' 2000 8.5 ''http://...'' (create_table None)))) \<noteq> False \<and>
   length (fst (get_movies (snd (add_movie ''gladiator'' 2001 5.0 ''x''
         (snd (add_movie ''Gladiator'' 2000 8.5 ''http://...'' (create_table None))))))) \<noteq> 1"
  by (simp add: add_movie_def insert_movie_def create_table_def log_def get_movies_def
      select_movies_def dict_of_rows_def)

text \<open>
  C3, amended. The store compares titles as they are written: on the empty table
  \<^verbatim>\<open>add_movie("Gladiator", 2000, 8.5, "http://...")\<close> and then
  \<^verbatim>\<open>add_movie("gladiator", 2001, 5.0, "x")\<close> both return \<^verbatim>\<open>True\<close>, and \<^verbatim>\<open>get_movies\<close>
  returns the two entries. The collision up to case is caught by the guard of
  \<^verbatim>\<open>command_add_movie\<close>: for the title \<^verbatim>\<open>gladiator\<close> typed after the first add it reports
  that the movie exists and does not reach the store, and \<^verbatim>\<open>get_movies\<close> returns the one
  entry for Gladiator with year 2000 and rating 8.5.
\<close>

theorem add_movie_other_case:
  "fst (add_movie ''Gladiator'' 2000 8.5 ''http://...'' (create_table None)) = True \<and>
   fst (add_movie ''gladiator'' 2001 5.0 ''x''
         (snd (add_movie ''Gladiator'' 2000 8.5 ''http://...'' (create_table None)))) = True \<and>
   fst (get_movies (snd (add_movie ''gladiator'' 2001 5.0 ''x''
         (snd (add_movie ''Gladiator'' 2000 8.5 ''http://...'' (create_table None))))))
     = [(''Gladiator'', \<lparr>year = 2000, rating = 8.5, poster = ''http://...''\<rparr>),
        (''gladiator'', \<lparr>year = 2001, rating = 5.0, poster = ''x''\<rparr>)] \<and>
   fst (command_add_movie_guard ''gladiator''
         (snd (add_movie ''Gladiator'' 2000 8.5 ''http://...'' (create_table None))))
     = Movie_already_exists ''gladiator'' \<and>
   fst (get_movies (snd (command_add_movie_guard ''gladiator''
         (snd (add_movie ''Gladiator'' 2000 8.5 ''http://...'' (create_table None))))))
     = [(''Gladiator'', \<lparr>year = 2000, rating = 8.5, poster = ''http://...''\<rparr>)]"
  by (simp add: add_movie_def insert_movie_def create_table_def log_def get_movies_def
      select_movies_def dict_of_rows_def command_add_movie_guard_def strip_gladiator
      lower_Gladiator)

subsection \<open>The empty title\<close>

text \<open>
  C10. The store does not refuse the empty title: when no stored row has it,
  \<^verbatim>\<open>add_movie("", y, r, p)\<close> returns \<^verbatim>\<open>True\<close>, the row is appended, and \<^verbatim>\<open>get_movies\<close>
  has an entry under the empty string with the values of the call. The check for an
  empty title is the one of the command line, which refuses it before the store is
  called.
\<close>

theorem add_movie_empty_title:
  assumes "'''' \<notin> fst ` set (movies s)"
  shows "fst (add_movie '''' y r p s) = True \<and>
         movies (snd (add_movie '''' y r p s)) = movies s @ [('''', y, r, p)] \<and>
         map_of (fst (get_movies (snd (add_movie '''' y r p s)))) ''''
           = Some \<lparr>year = y, rating = r, poster = p\<rparr> \<and>
         fst (command_add_movie_guard '''' s) = Title_cannot_be_empty"
  using assms
  by (simp add: add_movie_new fst_get_movies dict_of_rows_snoc update_conv'
      command_add_movie_guard_def strip_def split: prod.splits)

theorem add_movie_empty_title_witness:
  "'''' \<notin> fst ` set (movies (create_table None)) \<and>
   fst (add_movie '''' 2000 8.5 ''x'' (create_table None)) = True \<and>
   fst (get_movies (snd (add_movie '''' 2000 8.5 ''x'' (create_table None))))
     = [('''', \<lparr>year = 2000, rating = 8.5, poster = ''x''\<rparr>)]"
proof -
  have h: "'''' \<notin> fst ` set (movies (create_table None))"
    by (simp add: create_table_def)
  show ?thesis
    using h add_movie_empty_title [OF h, of 2000 "8.5" "''x''"]
    by (simp add: create_table_def fst_get_movies dict_of_rows_def)
qed

subsection \<open>Statistics\<close>





subsection \<open>Deleting and updating by title\<close>

lemma at_most_one_match:
  "distinct (map f xs) \<Longrightarrow> length (filter (\<lambda>x. f x = k) xs) \<le> 1"
proof (induction xs)
  case Nil
  show ?case by simp
next
  case (Cons a xs)
  show ?case
  proof (cases "f a = k")
    case True
    have "f a \<notin> f ` set xs" using Cons.prems by simp
    then have "f x \<noteq> k" if "x \<in> set xs" for x
      using that True by (metis imageI)
    then have "filter (\<lambda>x. f x = k) xs = []"
      by (simp add: filter_empty_conv)
    with True show ?thesis by simp
  next
    case False
    with Cons show ?thesis by simp
  qed
qed

lemma removed_rows:
  "length xs - length (filter (\<lambda>x. \<not> P x) xs) = length (filter P xs)"
  using sum_length_filter_compl [of P xs] by simp

lemma no_match_LOWER:
  "\<forall>row \<in> set rows. \<not> same_title (fst row) t \<Longrightarrow> \<forall>row \<in> set rows. LOWER (fst row) \<noteq> lower t"
  using LOWER_match_same_title by blast

lemma lower_examples:
  "lower ''Inception'' = ''inception''"
  "lower ''INCEPTION'' = ''inception''"
  "lower ''Alien'' = ''alien''"
  by code_simp+

lemma ascii_examples: "ascii ''Gladiator''" "ascii ''gladiator''" "ascii ''Inception''"
  by code_simp+

text \<open>
  C4, as stated, fails: the store holds \<^verbatim>\<open>Gladiator\<close> and \<^verbatim>\<open>gladiator\<close> after two
  successful adds, and \<^verbatim>\<open>delete_movie("GLADIATOR")\<close> removes both records.
\<close>

theorem delete_movie_two_rows_counterexample:
  "movies (snd (add_movie ''gladiator'' 2001 5.0 ''x''
       (snd (add_movie ''Gladiator'' 2000 8.5 ''http://...'' (create_table None)))))
     = [(''Gladiator'', 2000, 8.5, ''http://...''), (''gladiator'', 2001, 5.0, ''x'')] \<and>
   movies (snd (delete_movie ''GLADIATOR'' (snd (add_movie ''gladiator'' 2001 5.0 ''x''
       (snd (add_movie ''Gladiator'' 2000 8.5 ''http://...'' (create_table None)))))))
     = [] \<and>
   \<not> length (movies (snd (add_movie ''gladiator'' 2001 5.0 ''x''
       (snd (add_movie ''Gladiator'' 2000 8.5 ''http://...'' (create_table None))))))
     - length (movies (snd (delete_movie ''GLADIATOR'' (snd (add_movie ''gladiator'' 2001 5.0 ''x''
       (snd (add_movie ''Gladiator'' 2000 8.5 ''http://...'' (create_table None)))))))) \<le> 1"
  by (simp add: add_movie_def insert_movie_def create_table_def log_def delete_movie_def
      delete_where_lower_def lower_Gladiator LOWER_Gladiator)

text \<open>
  C4, amended. When the stored titles are ASCII, \<^verbatim>\<open>delete_movie(t)\<close> removes the records
  whose title is \<open>t\<close> up to case, all of them, and keeps the others in their order; it
  returns \<^verbatim>\<open>True\<close> exactly when there is such a record; and it removes at most one
  record when no two stored titles are the same up to case. For any table, when no
  stored title is \<open>t\<close> up to case it returns \<^verbatim>\<open>False\<close> and removes nothing.
\<close>

theorem delete_movie_matches:
  "(list_all (\<lambda>row. ascii (fst row)) (movies s) \<longrightarrow>
      movies (snd (delete_movie t s)) = filter (\<lambda>row. \<not> same_title (fst row) t) (movies s) \<and>
      fst (delete_movie t s) = (\<exists>row \<in> set (movies s). same_title (fst row) t) \<and>
      (distinct (map (\<lambda>row. lower (fst row)) (movies s)) \<longrightarrow>
         length (movies s) - length (movies (snd (delete_movie t s))) \<le> 1)) \<and>
   ((\<forall>row \<in> set (movies s). \<not> same_title (fst row) t) \<longrightarrow>
      fst (delete_movie t s) = False \<and> movies (snd (delete_movie t s)) = movies s)"
proof (intro conjI impI)
  assume a: "list_all (\<lambda>row. ascii (fst row)) (movies s)"
  then have eq: "LOWER (fst row) = lower t \<longleftrightarrow> same_title (fst row) t"
    if "row \<in> set (movies s)" for row
    using that by (simp add: list_all_iff ascii_match_iff)
  show m: "movies (snd (delete_movie t s)) = filter (\<lambda>row. \<not> same_title (fst row) t) (movies s)"
    unfolding movies_delete_movie by (rule filter_cong) (simp_all add: eq)
  show "fst (delete_movie t s) = (\<exists>row \<in> set (movies s). same_title (fst row) t)"
    unfolding fst_delete_movie using eq by blast
  assume "distinct (map (\<lambda>row. lower (fst row)) (movies s))"
  then have "length (filter (\<lambda>row. lower (fst row) = lower t) (movies s)) \<le> 1"
    by (rule at_most_one_match)
  then show "length (movies s) - length (movies (snd (delete_movie t s))) \<le> 1"
    unfolding m by (simp add: removed_rows same_title_def)
next
  assume "\<forall>row \<in> set (movies s). \<not> same_title (fst row) t"
  then have n: "\<forall>row \<in> set (movies s). LOWER (fst row) \<noteq> lower t"
    by (rule no_match_LOWER)
  then show "fst (delete_movie t s) = False"
    by (simp add: fst_delete_movie)
  from n show "movies (snd (delete_movie t s)) = movies s"
    by (simp add: movies_delete_movie)
qed

theorem delete_movie_matches_witness:
  "list_all (\<lambda>row. ascii (fst row))
     (movies (create_table (Some [(''Gladiator'', 2000, 8.5, ''http://...''),
                                  (''Inception'', 2010, 8.8, ''N/A'')]))) \<and>
   distinct (map (\<lambda>row. lower (fst row))
     (movies (create_table (Some [(''Gladiator'', 2000, 8.5, ''http://...''),
                                  (''Inception'', 2010, 8.8, ''N/A'')])))) \<and>
   fst (delete_movie ''GLADIATOR''
     (create_table (Some [(''Gladiator'', 2000, 8.5, ''http://...''),
                          (''Inception'', 2010, 8.8, ''N/A'')]))) = True \<and>
   movies (snd (delete_movie ''GLADIATOR''
     (create_table (Some [(''Gladiator'', 2000, 8.5, ''http://...''),
                          (''Inception'', 2010, 8.8, ''N/A'')]))))
     = [(''Inception'', 2010, 8.8, ''N/A'')] \<and>
   \<not> same_title ''Gladiator'' ''Alien'' \<and> \<not> same_title ''Inception'' ''Alien'' \<and>
   fst (delete_movie ''Alien''
     (create_table (Some [(''Gladiator'', 2000, 8.5, ''http://...''),
                          (''Inception'', 2010, 8.8, ''N/A'')]))) = False \<and>
   movies (snd (delete_movie ''Alien''
     (create_table (Some [(''Gladiator'', 2000, 8.5, ''http://...''),
                          (''Inception'', 2010, 8.8, ''N/A'')]))))
     = [(''Gladiator'', 2000, 8.5, ''http://...''), (''Inception'', 2010, 8.8, ''N/A'')]"
  using
    delete_movie_matches [of "create_table (Some [(''Gladiator'', 2000, 8.5, ''http://...''),
                          (''Inception'', 2010, 8.8, ''N/A'')])" "''GLADIATOR''"]
    delete_movie_matches [of "create_table (Some [(''Gladiator'', 2000, 8.5, ''http://...''),
                          (''Inception'', 2010, 8.8, ''N/A'')])" "''Alien''"]
  by (simp add: create_table_def same_title_def lower_Gladiator lower_examples ascii_examples)

text \<open>
  C5, as stated, fails: with \<^verbatim>\<open>Gladiator\<close> and \<^verbatim>\<open>gladiator\<close> stored,
  \<^verbatim>\<open>update_movie("Gladiator", 9)\<close> sets the rating of the record titled \<^verbatim>\<open>Gladiator\<close>
  and also that of the other record, which does not keep its rating 5.0.
\<close>

theorem update_movie_two_rows_counterexample:
  "movies (snd (add_movie ''gladiator'' 2001 5.0 ''x''
       (snd (add_movie ''Gladiator'' 2000 8.5 ''http://...'' (create_table None)))))
     = [(''Gladiator'', 2000, 8.5, ''http://...''), (''gladiator'', 2001, 5.0, ''x'')] \<and>
   movies (snd (update_movie ''Gladiator'' (Some 9) (snd (add_movie ''gladiator'' 2001 5.0 ''x''
       (snd (add_movie ''Gladiator'' 2000 8.5 ''http://...'' (create_table None)))))))
     = [(''Gladiator'', 2000, 9, ''http://...''), (''gladiator'', 2001, 9, ''x'')] \<and>
   movies (snd (update_movie ''Gladiator'' (Some 9) (snd (add_movie ''gladiator'' 2001 5.0 ''x''
       (snd (add_movie ''Gladiator'' 2000 8.5 ''http://...'' (create_table None)))))))
     \<noteq> [(''Gladiator'', 2000, 9, ''http://...''), (''gladiator'', 2001, 5.0, ''x'')]"
  by (simp add: add_movie_def insert_movie_def create_table_def log_def update_movie_def
      update_where_lower_def lower_Gladiator LOWER_Gladiator)

text \<open>
  C5, amended. When the stored titles are ASCII, \<^verbatim>\<open>update_movie(t, new)\<close> sets to
  \<open>new\<close>, whatever number it is, the rating of every record whose title is \<open>t\<close> up
  to case, leaves the title, year and poster of these records and every other record as
  they are, and returns \<^verbatim>\<open>True\<close> exactly when there is such a record. For any table,
  when no stored title is \<open>t\<close> up to case it returns \<^verbatim>\<open>False\<close> and changes nothing.
\<close>

theorem update_movie_matches:
  "(list_all (\<lambda>row. ascii (fst row)) (movies s) \<longrightarrow>
      movies (snd (update_movie t (Some new) s)) =
        map (\<lambda>(t', y, r, p). if same_title t' t then (t', y, new, p) else (t', y, r, p))
          (movies s) \<and>
      fst (update_movie t (Some new) s) = (\<exists>row \<in> set (movies s). same_title (fst row) t)) \<and>
   ((\<forall>row \<in> set (movies s). \<not> same_title (fst row) t) \<longrightarrow>
      fst (update_movie t (Some new) s) = False \<and>
      movies (snd (update_movie t (Some new) s)) = movies s)"
proof (intro conjI impI)
  assume a: "list_all (\<lambda>row. ascii (fst row)) (movies s)"
  then have eq: "LOWER (fst row) = lower t \<longleftrightarrow> same_title (fst row) t"
    if "row \<in> set (movies s)" for row
    using that by (simp add: list_all_iff ascii_match_iff)
  show "movies (snd (update_movie t (Some new) s)) =
        map (\<lambda>(t', y, r, p). if same_title t' t then (t', y, new, p) else (t', y, r, p))
          (movies s)"
    unfolding movies_update_movie by (rule map_cong) (use eq in auto)
  show "fst (update_movie t (Some new) s) = (\<exists>row \<in> set (movies s). same_title (fst row) t)"
    unfolding fst_update_movie using eq by blast
next
  assume "\<forall>row \<in> set (movies s). \<not> same_title (fst row) t"
  then have n: "\<forall>row \<in> set (movies s). LOWER (fst row) \<noteq> lower t"
    by (rule no_match_LOWER)
  then show "fst (update_movie t (Some new) s) = False"
    by (simp add: fst_update_movie)
  have "map (\<lambda>(t', y, r, p). if LOWER t' = lower t then (t', y, new, p) else (t', y, r, p))
          (movies s) = map (\<lambda>row. row) (movies s)"
    by (rule map_cong) (use n in auto)
  then show "movies (snd (update_movie t (Some new) s)) = movies s"
    by (simp add: movies_update_movie)
qed

theorem update_movie_matches_witness:
  "list_all (\<lambda>row. ascii (fst row))
     (movies (create_table (Some [(''Gladiator'', 2000, 8.5, ''http://...''),
                                  (''Inception'', 2010, 8.8, ''N/A'')]))) \<and>
   fst (update_movie ''INCEPTION'' (Some 8.5)
     (create_table (Some [(''Gladiator'', 2000, 8.5, ''http://...''),
                          (''Inception'', 2010, 8.8, ''N/A'')]))) = True \<and>
   movies (snd (update_movie ''INCEPTION'' (Some 8.5)
     (create_table (Some [(''Gladiator'', 2000, 8.5, ''http://...''),
                          (''Inception'', 2010, 8.8, ''N/A'')]))))
     = [(''Gladiator'', 2000, 8.5, ''http://...''), (''Inception'', 2010, 8.5, ''N/A'')] \<and>
   \<not> same_title ''Gladiator'' ''Alien'' \<and> \<not> same_title ''Inception'' ''Alien'' \<and>
   fst (update_movie ''Alien'' (Some (- 3))
     (create_table (Some [(''Gladiator'', 2000, 8.5, ''http://...''),
                          (''Inception'', 2010, 8.8, ''N/A'')]))) = False \<and>
   movies (snd (update_movie ''Alien'' (Some (- 3))
     (create_table (Some [(''Gladiator'', 2000, 8.5, ''http://...''),
                          (''Inception'', 2010, 8.8, ''N/A'')]))))
     = [(''Gladiator'', 2000, 8.5, ''http://...''), (''Inception'', 2010, 8.8, ''N/A'')]"
  using
    update_movie_matches [of "create_table (Some [(''Gladiator'', 2000, 8.5, ''http://...''),
                          (''Inception'', 2010, 8.8, ''N/A'')])" "''INCEPTION''" "8.5"]
    update_movie_matches [of "create_table (Some [(''Gladiator'', 2000, 8.5, ''http://...''),
                          (''Inception'', 2010, 8.8, ''N/A'')])" "''Alien''" "- 3"]
  by (simp add: create_table_def same_title_def lower_Gladiator lower_examples ascii_examples)

text \<open>
  Upper-case letters beyond ASCII are outside the two statements above. \<^verbatim>\<open>LOWER\<close> leaves
  U+00C9 as it is and \<^verbatim>\<open>lower()\<close> maps it to U+00E9, so a record whose title begins
  with it is found neither by \<^verbatim>\<open>delete_movie\<close> nor by \<^verbatim>\<open>update_movie\<close>, even under
  its own title.
\<close>

lemma lower_beyond_ascii:
  "lower [CHR 0xC9, CHR ''t'', CHR 0xE9] = [CHR 0xE9, CHR ''t'', CHR 0xE9]"
  "LOWER [CHR 0xC9, CHR ''t'', CHR 0xE9] = [CHR 0xC9, CHR ''t'', CHR 0xE9]"
  by code_simp+

lemma upper_case_beyond_ascii_not_matched:
  "fst (delete_movie [CHR 0xC9, CHR ''t'', CHR 0xE9]
         (create_table (Some [([CHR 0xC9, CHR ''t'', CHR 0xE9], 2016, 7, ''N/A'')]))) = False"
  "fst (update_movie [CHR 0xC9, CHR ''t'', CHR 0xE9] (Some 8)
         (create_table (Some [([CHR 0xC9, CHR ''t'', CHR 0xE9], 2016, 7, ''N/A'')]))) = False"
  by (simp_all add: fst_delete_movie fst_update_movie create_table_def lower_beyond_ascii)

end
